theory Spec2Isabelle
  imports Complex_Main "HOL-Library.Word" "HOL-Library.AList"
begin

section \<open>Data model of cognitive.h\<close>

text \<open>
  The embedding follows \<^verbatim>\<open>src/shared/inc/cognitive.h\<close> and
  \<^verbatim>\<open>src/shared/cognitive/cognitive.cpp\<close>.

  \<^item> A shared pointer to an Atom is a reference \<open>ref\<close> into an explicit object store
    \<open>heap\<close>; two pointers are the identical node when the references are equal. Atoms
    are mutated in place through any reference, so every setter is a store update.
  \<^item> \<^verbatim>\<open>float\<close> fields are modelled by \<open>real\<close> with exact arithmetic; rounding is
    not modelled, so a computed value is the code's up to rounding. No bound proved
    below counts on an added share being felt, which rounding can absorb.
  \<^item> Time stamps, the mutexes, the condition variable and the processing thread are not
    modelled: every operation is one atomic step, and the stages of the cognitive cycle
    are functions of their own rather than a loop on a thread.
  \<^item> An \<^verbatim>\<open>unordered_map\<close> that the code iterates is an association list whose
    order stands for the iteration order, which C++ leaves unspecified. Statements that
    depend on the order are proved for every list.
\<close>

datatype atom_type = Concept | Link | Process | Agent | Rule | Goal | Memory

type_synonym ref = nat

record Atom =
  m_type :: atom_type
  m_name :: string
  m_id :: "64 word"
  m_truthValue :: real
  m_confidence :: real
  m_attention :: real
  m_incomingLinks :: "ref list"
  m_outgoingLinks :: "ref list"

text \<open>
  The process state the graph store works on: the static counter \<^verbatim>\<open>Atom::s_nextId\<close>,
  the Atom objects (with the next unused reference of the allocator), and the two tables
  of the one \<^verbatim>\<open>AtomSpace\<close>.
\<close>

record world =
  s_nextId :: "64 word"
  next_ref :: ref
  heap :: "ref \<Rightarrow> Atom"
  m_atoms :: "(64 word \<times> ref) list"
  m_atomsByName :: "string \<rightharpoonup> ref"

datatype State = Inactive | Active | Learning | Planning | Executing | SelfModifying | Error

text \<open>
  \<open>m_atomSpace\<close> is \<open>True\<close> when the agent's pointer to the graph store is not null;
  a non-null pointer refers to the store of the \<open>world\<close>.
\<close>

record CognitiveAgent =
  m_agentName :: string
  m_atomSpace :: bool
  m_state :: State
  m_shouldStop :: bool
  m_goals :: "ref list"
  m_memories :: "ref list"

record CognitiveSystem =
  m_agents :: "(string \<times> CognitiveAgent) list"
  m_configuration :: "string \<rightharpoonup> string"
  m_initialized :: bool

record SystemStats =
  totalAgents :: nat
  activeAgents :: nat
  totalAtoms :: nat
  averageAttention :: real

datatype fault = NullDereference | OutOfRange

section \<open>Atom\<close>

definition Atom_ctor :: "atom_type \<Rightarrow> string \<Rightarrow> real \<Rightarrow> real \<Rightarrow> 64 word \<Rightarrow> Atom" where
  "Atom_ctor type name truthValue confidence nextId =
     \<lparr>m_type = type, m_name = name, m_id = nextId, m_truthValue = truthValue,
      m_confidence = confidence, m_attention = 0.5,
      m_incomingLinks = [], m_outgoingLinks = []\<rparr>"

definition clamp :: "real \<Rightarrow> real \<Rightarrow> real \<Rightarrow> real" where
  "clamp v lo hi = (if v < lo then lo else if hi < v then hi else v)"

definition SetTruthValue :: "ref \<Rightarrow> real \<Rightarrow> real \<Rightarrow> (ref \<Rightarrow> Atom) \<Rightarrow> (ref \<Rightarrow> Atom)" where
  "SetTruthValue r truth confidence h =
     h(r := (h r)\<lparr>m_truthValue := clamp truth 0 1, m_confidence := clamp confidence 0 1\<rparr>)"

definition GetAttention :: "(ref \<Rightarrow> Atom) \<Rightarrow> ref \<Rightarrow> real" where
  "GetAttention h r = m_attention (h r)"

definition SetAttention :: "ref \<Rightarrow> real \<Rightarrow> (ref \<Rightarrow> Atom) \<Rightarrow> (ref \<Rightarrow> Atom)" where
  "SetAttention r attention h = h(r := (h r)\<lparr>m_attention := attention\<rparr>)"

text \<open>The argument is \<open>None\<close> for a null pointer.\<close>

definition AddIncomingLink :: "ref \<Rightarrow> ref option \<Rightarrow> (ref \<Rightarrow> Atom) \<Rightarrow> (ref \<Rightarrow> Atom)" where
  "AddIncomingLink r atom h =
     (case atom of
        None \<Rightarrow> h
      | Some a \<Rightarrow>
          if a \<notin> set (m_incomingLinks (h r))
          then h(r := (h r)\<lparr>m_incomingLinks := m_incomingLinks (h r) @ [a]\<rparr>)
          else h)"

definition AddOutgoingLink :: "ref \<Rightarrow> ref option \<Rightarrow> (ref \<Rightarrow> Atom) \<Rightarrow> (ref \<Rightarrow> Atom)" where
  "AddOutgoingLink r atom h =
     (case atom of
        None \<Rightarrow> h
      | Some a \<Rightarrow>
          if a \<notin> set (m_outgoingLinks (h r))
          then h(r := (h r)\<lparr>m_outgoingLinks := m_outgoingLinks (h r) @ [a]\<rparr>)
          else h)"

section \<open>AtomSpace\<close>

definition CreateAtom :: "atom_type \<Rightarrow> string \<Rightarrow> real \<Rightarrow> real \<Rightarrow> world \<Rightarrow> ref \<times> world" where
  "CreateAtom type name truthValue confidence w =
     (case m_atomsByName w name of
        Some existing \<Rightarrow> (existing, w)
      | None \<Rightarrow>
          let atom = next_ref w;
              obj = Atom_ctor type name truthValue confidence (s_nextId w)
          in (atom,
              w\<lparr>s_nextId := s_nextId w + 1,
                next_ref := Suc atom,
                heap := (heap w)(atom := obj),
                m_atoms := AList.update (m_id obj) atom (m_atoms w),
                m_atomsByName := (m_atomsByName w)(name \<mapsto> atom)\<rparr>))"

definition GetAtom :: "world \<Rightarrow> 64 word \<Rightarrow> ref option" where
  "GetAtom w ident = map_of (m_atoms w) ident"

definition FindAtom :: "world \<Rightarrow> string \<Rightarrow> ref option" where
  "FindAtom w name = m_atomsByName w name"

definition FindAtomsByType :: "world \<Rightarrow> atom_type \<Rightarrow> ref list" where
  "FindAtomsByType w type = filter (\<lambda>atom. m_type (heap w atom) = type) (map snd (m_atoms w))"

definition RemoveAtom :: "64 word \<Rightarrow> world \<Rightarrow> bool \<times> world" where
  "RemoveAtom ident w =
     (case map_of (m_atoms w) ident of
        None \<Rightarrow> (False, w)
      | Some atom \<Rightarrow>
          (True,
           w\<lparr>m_atomsByName := (m_atomsByName w)(m_name (heap w atom) := None),
             m_atoms := AList.delete ident (m_atoms w)\<rparr>))"

definition Clear :: "world \<Rightarrow> world" where
  "Clear w = w\<lparr>m_atoms := [], m_atomsByName := Map.empty\<rparr>"

definition Query :: "(Atom \<Rightarrow> bool) \<Rightarrow> world \<Rightarrow> ref list" where
  "Query predicate w = filter (\<lambda>atom. predicate (heap w atom)) (map snd (m_atoms w))"

definition GetAtomCount :: "world \<Rightarrow> nat" where
  "GetAtomCount w = length (m_atoms w)"

definition GetAtomCountByType :: "world \<Rightarrow> atom_type \<Rightarrow> nat" where
  "GetAtomCountByType w type =
     length (filter (\<lambda>atom. m_type (heap w atom) = type) (map snd (m_atoms w)))"

text \<open>
  The constructor of \<^verbatim>\<open>AtomSpace\<close>: both tables start empty, then the three
  fundamental atoms are created. The counter and the objects already allocated by the
  process are those of the argument.
\<close>

definition AtomSpace_ctor :: "world \<Rightarrow> world" where
  "AtomSpace_ctor w =
     (let w0 = w\<lparr>m_atoms := [], m_atomsByName := Map.empty\<rparr>;
          w1 = snd (CreateAtom Concept ''Self'' 1 1 w0);
          w2 = snd (CreateAtom Concept ''System'' 1 1 w1);
          w3 = snd (CreateAtom Concept ''WSL'' 1 1 w2)
      in w3)"

text \<open>The process before any object exists: the counter starts at 1.\<close>

definition process_start :: world where
  "process_start =
     \<lparr>s_nextId = 1, next_ref = 0, heap = (\<lambda>_. Atom_ctor Concept [] 0 0 0),
      m_atoms = [], m_atomsByName = Map.empty\<rparr>"

text \<open>The inner loop of \<^verbatim>\<open>UpdateAttentionValues\<close> over the outgoing links.\<close>

fun spread :: "real \<Rightarrow> ref list \<Rightarrow> (ref \<Rightarrow> Atom) \<Rightarrow> (ref \<Rightarrow> Atom)" where
  "spread spreadAmount [] h = h"
| "spread spreadAmount (linked # rest) h =
     spread spreadAmount rest (SetAttention linked (GetAttention h linked + spreadAmount) h)"

text \<open>The body of the outer loop, for one entry of \<open>m_atoms\<close>.\<close>

definition attention_step :: "ref \<Rightarrow> (ref \<Rightarrow> Atom) \<Rightarrow> (ref \<Rightarrow> Atom)" where
  "attention_step atom h =
     (let currentAttention = GetAttention h atom;
          newAttention = currentAttention * 0.95;
          outgoing = m_outgoingLinks (h atom);
          h1 = (if outgoing \<noteq> []
                then spread (currentAttention * 0.1 / real (length outgoing)) outgoing h
                else h)
      in SetAttention atom (max 0.01 newAttention) h1)"

fun attention_loop :: "ref list \<Rightarrow> (ref \<Rightarrow> Atom) \<Rightarrow> (ref \<Rightarrow> Atom)" where
  "attention_loop [] h = h"
| "attention_loop (atom # rest) h = attention_loop rest (attention_step atom h)"

definition UpdateAttentionValues :: "world \<Rightarrow> world" where
  "UpdateAttentionValues w = w\<lparr>heap := attention_loop (map snd (m_atoms w)) (heap w)\<rparr>"

section \<open>Strings\<close>

text \<open>
  \<^verbatim>\<open>std::string::substr(pos)\<close> throws \<^verbatim>\<open>std::out_of_range\<close> when
  \<open>pos\<close> is beyond the length. \<^verbatim>\<open>substr(0, 5)\<close> never throws and is \<open>take 5\<close>.
\<close>

definition substr :: "string \<Rightarrow> nat \<Rightarrow> fault + string" where
  "substr s pos = (if length s < pos then Inl OutOfRange else Inr (drop pos s))"

definition starts_with :: "string \<Rightarrow> string \<Rightarrow> bool" where
  "starts_with needle s = (take (length needle) s = needle)"

text \<open>\<^verbatim>\<open>std::string::find\<close>: the first position of the needle, \<open>None\<close> for npos.\<close>

fun find_str :: "string \<Rightarrow> string \<Rightarrow> nat option" where
  "find_str [] needle = (if needle = [] then Some 0 else None)"
| "find_str (c # cs) needle =
     (if starts_with needle (c # cs) then Some 0 else map_option Suc (find_str cs needle))"

section \<open>CognitiveAgent\<close>

definition CognitiveAgent_ctor :: "string \<Rightarrow> bool \<Rightarrow> world \<Rightarrow> CognitiveAgent \<times> world" where
  "CognitiveAgent_ctor name atomSpace w =
     (let agent = \<lparr>m_agentName = name, m_atomSpace = atomSpace, m_state = Inactive,
                   m_shouldStop = False, m_goals = [], m_memories = []\<rparr>
      in if atomSpace
         then (let (selfConcept, w1) = CreateAtom Agent (''Agent:'' @ name) 1 1 w
               in (agent, w1\<lparr>heap := SetAttention selfConcept 1 (heap w1)\<rparr>))
         else (agent, w))"

definition Start :: "CognitiveAgent \<Rightarrow> CognitiveAgent" where
  "Start agent =
     (if m_state agent \<noteq> Inactive then agent
      else agent\<lparr>m_shouldStop := False, m_state := Active\<rparr>)"

definition Stop :: "CognitiveAgent \<Rightarrow> CognitiveAgent" where
  "Stop agent = agent\<lparr>m_shouldStop := True, m_state := Inactive\<rparr>"

definition Pause :: "CognitiveAgent \<Rightarrow> CognitiveAgent" where
  "Pause agent = (if m_state agent = Active then agent\<lparr>m_state := Inactive\<rparr> else agent)"

definition Resume :: "CognitiveAgent \<Rightarrow> CognitiveAgent" where
  "Resume agent =
     (if m_state agent = Inactive \<and> \<not> m_shouldStop agent
      then agent\<lparr>m_state := Active\<rparr> else agent)"

fun perceive_loop :: "ref list \<Rightarrow> CognitiveAgent \<Rightarrow> world \<Rightarrow> CognitiveAgent \<times> world" where
  "perceive_loop [] agent w = (agent, w)"
| "perceive_loop (atom # rest) agent w =
     (let (memory, w1) = CreateAtom Memory (''Perceived:'' @ m_name (heap w atom))
                           (m_truthValue (heap w atom)) (m_confidence (heap w atom)) w
      in perceive_loop rest (agent\<lparr>m_memories := m_memories agent @ [memory]\<rparr>) w1)"

definition Perceive :: "CognitiveAgent \<Rightarrow> world \<Rightarrow> CognitiveAgent \<times> world" where
  "Perceive agent w =
     (if \<not> m_atomSpace agent then (agent, w)
      else perceive_loop (Query (\<lambda>atom. m_attention atom > 0.7) w)
             (agent\<lparr>m_state := Active\<rparr>) w)"

text \<open>
  The predicate of \<^verbatim>\<open>Reason\<close>; \<^verbatim>\<open>&&\<close> evaluates \<^verbatim>\<open>substr(9)\<close> only for a
  Concept, so only then can it throw.
\<close>

definition reason_predicate :: "Atom \<Rightarrow> Atom \<Rightarrow> fault + bool" where
  "reason_predicate memory atom =
     (if m_type atom = Concept
      then (case substr (m_name memory) 9 of
              Inl e \<Rightarrow> Inl e
            | Inr needle \<Rightarrow> Inr (find_str (m_name atom) needle \<noteq> None))
      else Inr False)"

text \<open>\<^verbatim>\<open>AtomSpace::Query\<close> for a predicate that can throw.\<close>

fun Query_throwing :: "(Atom \<Rightarrow> fault + bool) \<Rightarrow> (ref \<Rightarrow> Atom) \<Rightarrow> ref list \<Rightarrow> fault + ref list" where
  "Query_throwing predicate h [] = Inr []"
| "Query_throwing predicate h (atom # rest) =
     (case predicate (h atom) of
        Inl e \<Rightarrow> Inl e
      | Inr b \<Rightarrow>
          (case Query_throwing predicate h rest of
             Inl e \<Rightarrow> Inl e
           | Inr result \<Rightarrow> Inr (if b then atom # result else result)))"

fun reason_update :: "ref \<Rightarrow> ref list \<Rightarrow> (ref \<Rightarrow> Atom) \<Rightarrow> (ref \<Rightarrow> Atom)" where
  "reason_update memory [] h = h"
| "reason_update memory (related # rest) h =
     (let currentTruth = m_truthValue (h related);
          memoryTruth = m_truthValue (h memory);
          newTruth = (currentTruth + memoryTruth) / 2
      in reason_update memory rest
           (SetTruthValue related newTruth (m_confidence (h related) * 1.1) h))"

fun reason_loop :: "ref list \<Rightarrow> world \<Rightarrow> fault + world" where
  "reason_loop [] w = Inr w"
| "reason_loop (memory # rest) w =
     (case Query_throwing (reason_predicate (heap w memory)) (heap w) (map snd (m_atoms w)) of
        Inl e \<Rightarrow> Inl e
      | Inr relatedAtoms \<Rightarrow>
          reason_loop rest (w\<lparr>heap := reason_update memory relatedAtoms (heap w)\<rparr>))"

text \<open>
  A stage that can fail returns \<open>Inl\<close> of the fault: an exception that leaves the
  stage, or the dereference of a null \<open>m_atomSpace\<close>.
\<close>

definition Reason :: "CognitiveAgent \<Rightarrow> world \<Rightarrow> fault + CognitiveAgent \<times> world" where
  "Reason agent w =
     (if \<not> m_atomSpace agent then Inr (agent, w)
      else (case reason_loop (m_memories agent) w of
              Inl e \<Rightarrow> Inl e
            | Inr w1 \<Rightarrow> Inr (agent, w1)))"

fun plan_loop :: "bool \<Rightarrow> ref list \<Rightarrow> world \<Rightarrow> fault + world" where
  "plan_loop atomSpace [] w = Inr w"
| "plan_loop atomSpace (goal # rest) w =
     (if m_truthValue (heap w goal) < 0.8
      then (if \<not> atomSpace then Inl NullDereference
            else (let (plan, w1) = CreateAtom Process (''Plan:'' @ m_name (heap w goal)) 0.5 0.8 w
                  in plan_loop atomSpace rest
                       (w1\<lparr>heap := AddOutgoingLink goal (Some plan) (heap w1)\<rparr>)))
      else plan_loop atomSpace rest w)"

definition Plan :: "CognitiveAgent \<Rightarrow> world \<Rightarrow> fault + CognitiveAgent \<times> world" where
  "Plan agent w =
     (case plan_loop (m_atomSpace agent) (m_goals agent) w of
        Inl e \<Rightarrow> Inl e
      | Inr w1 \<Rightarrow> Inr (agent, w1))"

fun act_goals :: "ref list \<Rightarrow> (ref \<Rightarrow> Atom) \<Rightarrow> (ref \<Rightarrow> Atom)" where
  "act_goals [] h = h"
| "act_goals (incoming # rest) h =
     act_goals rest
       (if m_type (h incoming) = Goal
        then SetTruthValue incoming (m_truthValue (h incoming) + 0.05) (m_confidence (h incoming)) h
        else h)"

fun act_loop :: "ref list \<Rightarrow> (ref \<Rightarrow> Atom) \<Rightarrow> (ref \<Rightarrow> Atom)" where
  "act_loop [] h = h"
| "act_loop (plan # rest) h =
     act_loop rest
       (if take 5 (m_name (h plan)) = ''Plan:'' \<and> m_truthValue (h plan) > 0.4
        then (let h1 = SetTruthValue plan (m_truthValue (h plan) + 0.1) (m_confidence (h plan)) h
              in act_goals (m_incomingLinks (h1 plan)) h1)
        else h)"

definition Act :: "CognitiveAgent \<Rightarrow> world \<Rightarrow> fault + CognitiveAgent \<times> world" where
  "Act agent w =
     (if \<not> m_atomSpace agent then Inl NullDereference
      else Inr (agent, w\<lparr>heap := act_loop (FindAtomsByType w Process) (heap w)\<rparr>))"

fun learn_loop :: "ref list \<Rightarrow> (ref \<Rightarrow> Atom) \<Rightarrow> (ref \<Rightarrow> Atom)" where
  "learn_loop [] h = h"
| "learn_loop (concept # rest) h =
     learn_loop rest
       (if m_attention (h concept) > 0.5
        then SetTruthValue concept (m_truthValue (h concept))
               (min 1 (m_confidence (h concept) + 0.01)) h
        else h)"

definition Learn :: "CognitiveAgent \<Rightarrow> world \<Rightarrow> CognitiveAgent \<times> world" where
  "Learn agent w =
     (if \<not> m_atomSpace agent then (agent, w)
      else (let agent1 = agent\<lparr>m_state := Learning\<rparr>;
                w1 = w\<lparr>heap := learn_loop (FindAtomsByType w Concept) (heap w)\<rparr>
            in (if length (m_memories agent1) > 1000
                then agent1\<lparr>m_memories := drop 100 (m_memories agent1)\<rparr>
                else agent1,
                w1)))"

fun selfmodify_loop :: "ref list \<Rightarrow> world \<Rightarrow> world" where
  "selfmodify_loop [] w = w"
| "selfmodify_loop (plan # rest) w =
     (let (rule, w1) = CreateAtom Rule (''Rule:'' @ m_name (heap w plan))
                         (m_truthValue (heap w plan)) (m_confidence (heap w plan)) w
      in selfmodify_loop rest (w1\<lparr>heap := AddOutgoingLink plan (Some rule) (heap w1)\<rparr>))"

definition SelfModify :: "CognitiveAgent \<Rightarrow> world \<Rightarrow> CognitiveAgent \<times> world" where
  "SelfModify agent w =
     (if \<not> m_atomSpace agent then (agent, w)
      else (agent\<lparr>m_state := SelfModifying\<rparr>,
            selfmodify_loop
              (Query (\<lambda>atom. m_type atom = Process \<and> take 5 (m_name atom) = ''Plan:''
                               \<and> m_truthValue atom > 0.8) w) w))"

definition AddGoal :: "ref option \<Rightarrow> (ref \<Rightarrow> Atom) \<Rightarrow> CognitiveAgent \<Rightarrow> CognitiveAgent" where
  "AddGoal goal h agent =
     (case goal of
        None \<Rightarrow> agent
      | Some g \<Rightarrow>
          if m_type (h g) = Goal then agent\<lparr>m_goals := m_goals agent @ [g]\<rparr> else agent)"

definition RemoveGoal :: "64 word \<Rightarrow> (ref \<Rightarrow> Atom) \<Rightarrow> CognitiveAgent \<Rightarrow> CognitiveAgent" where
  "RemoveGoal goalId h agent =
     agent\<lparr>m_goals := filter (\<lambda>goal. m_id (h goal) \<noteq> goalId) (m_goals agent)\<rparr>"

definition ReceiveMessage :: "string \<Rightarrow> string \<Rightarrow> CognitiveAgent \<Rightarrow> world \<Rightarrow> CognitiveAgent \<times> world" where
  "ReceiveMessage fromAgent message agent w =
     (if m_atomSpace agent
      then (let (messageAtom, w1) =
                  CreateAtom Memory (''Message:'' @ fromAgent @ '':'' @ message) 1 0.9 w
            in (agent\<lparr>m_memories := m_memories agent @ [messageAtom]\<rparr>, w1))
      else (agent, w))"

section \<open>CognitiveSystem\<close>

definition CognitiveSystem_ctor :: "world \<Rightarrow> CognitiveSystem \<times> world" where
  "CognitiveSystem_ctor w =
     (\<lparr>m_agents = [], m_configuration = Map.empty, m_initialized = False\<rparr>, AtomSpace_ctor w)"

definition SetConfiguration :: "string \<Rightarrow> string \<Rightarrow> CognitiveSystem \<Rightarrow> CognitiveSystem" where
  "SetConfiguration key v sys = sys\<lparr>m_configuration := (m_configuration sys)(key \<mapsto> v)\<rparr>"

definition GetConfiguration :: "CognitiveSystem \<Rightarrow> string \<Rightarrow> string" where
  "GetConfiguration sys key = (case m_configuration sys key of None \<Rightarrow> [] | Some v \<Rightarrow> v)"

definition Initialize :: "CognitiveSystem \<Rightarrow> world \<Rightarrow> CognitiveSystem \<times> world" where
  "Initialize sys w =
     (if m_initialized sys then (sys, w)
      else (let w1 = snd (CreateAtom Concept ''CognitiveSystem'' 1 1 w);
                w2 = snd (CreateAtom Goal ''SystemStability'' 1 1 w1);
                w3 = snd (CreateAtom Goal ''OptimizePerformance'' 0.8 0.9 w2)
            in (SetConfiguration ''self_modification_probability'' ''0.01''
                  (SetConfiguration ''attention_update_interval'' ''1000''
                    (SetConfiguration ''max_agents'' ''10'' (sys\<lparr>m_initialized := True\<rparr>))),
                w3)))"

definition CreateAgent :: "string \<Rightarrow> CognitiveSystem \<Rightarrow> world \<Rightarrow> CognitiveSystem \<times> world" where
  "CreateAgent name sys w =
     (case map_of (m_agents sys) name of
        Some existing \<Rightarrow> (sys, w)
      | None \<Rightarrow>
          (let (agent, w1) = CognitiveAgent_ctor name True w;
               (goal, w2) = CreateAtom Goal (''AgentGoal:'' @ name) 0.5 0.8 w1
           in (sys\<lparr>m_agents := AList.update name (AddGoal (Some goal) (heap w2) agent)
                                  (m_agents sys)\<rparr>,
               w2)))"

definition GetAgent :: "CognitiveSystem \<Rightarrow> string \<Rightarrow> CognitiveAgent option" where
  "GetAgent sys name = map_of (m_agents sys) name"

definition RemoveAgent :: "string \<Rightarrow> CognitiveSystem \<Rightarrow> bool \<times> CognitiveSystem" where
  "RemoveAgent name sys =
     (case map_of (m_agents sys) name of
        None \<Rightarrow> (False, sys)
      | Some agent \<Rightarrow> (True, sys\<lparr>m_agents := AList.delete name (m_agents sys)\<rparr>))"

definition GetAgentNames :: "CognitiveSystem \<Rightarrow> string list" where
  "GetAgentNames sys = map fst (m_agents sys)"

definition is_active :: "CognitiveAgent \<Rightarrow> bool" where
  "is_active agent =
     (m_state agent = Active \<or> m_state agent = Learning \<or> m_state agent = Planning \<or>
      m_state agent = Executing \<or> m_state agent = SelfModifying)"

definition GetStatistics :: "CognitiveSystem \<Rightarrow> world \<Rightarrow> SystemStats" where
  "GetStatistics sys w =
     \<lparr>totalAgents = length (m_agents sys),
      activeAgents = length (filter is_active (map snd (m_agents sys))),
      totalAtoms = GetAtomCount w,
      averageAttention =
        (let allAtoms = Query (\<lambda>_. True) w
         in if allAtoms \<noteq> []
            then foldl (\<lambda>totalAttention atom. totalAttention + GetAttention (heap w) atom) 0 allAtoms
                   / real (length allAtoms)
            else 0)\<rparr>"

text \<open>
  The innermost loop of \<^verbatim>\<open>UpdateSystem\<close>: \<^verbatim>\<open>Resume\<close> on the first agent whose
  state is \<open>Inactive\<close>, then \<^verbatim>\<open>break\<close>.
\<close>

fun resume_first :: "(string \<times> CognitiveAgent) list \<Rightarrow> (string \<times> CognitiveAgent) list" where
  "resume_first [] = []"
| "resume_first ((name, agent) # rest) =
     (if m_state agent = Inactive then (name, Resume agent) # rest
      else (name, agent) # resume_first rest)"

fun optimize_loop :: "ref list \<Rightarrow> world \<Rightarrow> CognitiveSystem \<Rightarrow> CognitiveSystem" where
  "optimize_loop [] w sys = sys"
| "optimize_loop (goal # rest) w sys =
     optimize_loop rest w
       (if m_name (heap w goal) = ''OptimizePerformance''
        then (let stats = GetStatistics sys w
              in if activeAgents stats < totalAgents stats div 2
                 then sys\<lparr>m_agents := resume_first (m_agents sys)\<rparr>
                 else sys)
        else sys)"

definition UpdateSystem :: "CognitiveSystem \<Rightarrow> world \<Rightarrow> CognitiveSystem \<times> world" where
  "UpdateSystem sys w =
     (if \<not> m_initialized sys then (sys, w)
      else (let w1 = UpdateAttentionValues w
            in (optimize_loop (FindAtomsByType w1 Goal) w1 sys, w1)))"

section \<open>Concrete states\<close>

text \<open>A freshly constructed graph store in a fresh process.\<close>

definition fresh_store :: world where
  "fresh_store = AtomSpace_ctor process_start"

text \<open>
  Two Concepts \<open>A\<close> and \<open>B\<close> created in a fresh store, \<open>A\<close> linked to \<open>B\<close>, with attention
  \<open>a\<close> and \<open>b\<close> set through \<^verbatim>\<open>SetAttention\<close>; in the second store \<open>B\<close> is created
  before \<open>A\<close>, so the pass visits the two in the other order.
\<close>

definition link_example :: "real \<Rightarrow> real \<Rightarrow> world" where
  "link_example a b =
     (let (A, w1) = CreateAtom Concept ''A'' 1 1 fresh_store;
          (B, w2) = CreateAtom Concept ''B'' 1 1 w1
      in w2\<lparr>heap := SetAttention B b (SetAttention A a (AddOutgoingLink A (Some B) (heap w2)))\<rparr>)"

definition link_example_rev :: "real \<Rightarrow> real \<Rightarrow> world" where
  "link_example_rev a b =
     (let (B, w1) = CreateAtom Concept ''B'' 1 1 fresh_store;
          (A, w2) = CreateAtom Concept ''A'' 1 1 w1
      in w2\<lparr>heap := SetAttention B b (SetAttention A a (AddOutgoingLink A (Some B) (heap w2)))\<rparr>)"

text \<open>
  An agent bound to a fresh store after \<open>k\<close> calls of
  \<^verbatim>\<open>ReceiveMessage("System", "tick")\<close>.
\<close>

definition receive_tick :: "CognitiveAgent \<times> world \<Rightarrow> CognitiveAgent \<times> world" where
  "receive_tick s = ReceiveMessage ''System'' ''tick'' (fst s) (snd s)"

definition agent_after_messages :: "nat \<Rightarrow> CognitiveAgent \<times> world" where
  "agent_after_messages k = (receive_tick ^^ k) (CognitiveAgent_ctor ''a'' True fresh_store)"

text \<open>
  A system after its constructor, \<^verbatim>\<open>Initialize\<close> and one \<^verbatim>\<open>CreateAgent\<close> for each
  name of the list.
\<close>

definition create_agent :: "string \<Rightarrow> CognitiveSystem \<times> world \<Rightarrow> CognitiveSystem \<times> world" where
  "create_agent name s = CreateAgent name (fst s) (snd s)"

definition system_with_agents :: "string list \<Rightarrow> CognitiveSystem \<times> world" where
  "system_with_agents names =
     fold create_agent names
       (Initialize (fst (CognitiveSystem_ctor process_start))
                   (snd (CognitiveSystem_ctor process_start)))"

text \<open>
  The agent \<open>a\<close> of a system with that one agent, started; the world it works on; and
  the results of its \<^verbatim>\<open>Plan\<close> stage and of the \<^verbatim>\<open>Act\<close> stage after it.
\<close>

definition agent_a :: CognitiveAgent where
  "agent_a = Start (snd (hd (m_agents (fst (system_with_agents [''a''])))))"

definition world_a :: world where
  "world_a = snd (system_with_agents [''a''])"

definition after_plan :: "fault + CognitiveAgent \<times> world" where
  "after_plan = Plan agent_a world_a"

definition after_act :: "fault + CognitiveAgent \<times> world" where
  "after_act = (case after_plan of Inl e \<Rightarrow> Inl e | Inr (agent, w) \<Rightarrow> Act agent w)"

text \<open>
  A Concept \<open>X\<close> at truth 0.2 and confidence 0.5 is given attention 0.9; an agent is
  constructed and perceives; then the truth of \<open>X\<close> is set to 0.8. The last definition is
  the \<^verbatim>\<open>Reason\<close> stage in that state.
\<close>

definition reason_example :: "CognitiveAgent \<times> world" where
  "reason_example =
     (let (X, w1) = CreateAtom Concept ''X'' 0.2 0.5 fresh_store;
          w2 = w1\<lparr>heap := SetAttention X 0.9 (heap w1)\<rparr>;
          (agent, w3) = CognitiveAgent_ctor ''a'' True w2;
          (agent1, w4) = Perceive agent w3
      in (agent1, w4\<lparr>heap := SetTruthValue X 0.8 0.5 (heap w4)\<rparr>))"

definition after_reason :: "fault + CognitiveAgent \<times> world" where
  "after_reason = Reason (fst reason_example) (snd reason_example)"

section \<open>Get-or-create\<close>

lemma CreateAtom_bound:
  "m_atomsByName w n = Some r \<Longrightarrow> CreateAtom t n v c w = (r, w)"
  by (simp add: CreateAtom_def)

lemma CreateAtom_binds:
  "m_atomsByName (snd (CreateAtom t n v c w)) n = Some (fst (CreateAtom t n v c w))"
  by (simp add: CreateAtom_def Let_def split: option.split)

lemma CreateAtom_new:
  "m_atomsByName w n = None \<Longrightarrow>
     fst (CreateAtom t n v c w) = next_ref w \<and>
     heap (snd (CreateAtom t n v c w)) (next_ref w) = Atom_ctor t n v c (s_nextId w)"
  by (simp add: CreateAtom_def Let_def)

text \<open>
  C1, as amended. Two calls of \<open>CreateAtom\<close> with the same name return the identical node,
  and the second call changes nothing at all. When the name was not bound before the first
  call, the node carries the first call's type, truth and confidence after the second
  call. When the name was already bound, both calls return the node that was bound and
  neither call's values are used.
\<close>

theorem C1_createOrGet_idempotent:
  "fst (CreateAtom t2 n v2 c2 (snd (CreateAtom t1 n v1 c1 w))) = fst (CreateAtom t1 n v1 c1 w) \<and>
   snd (CreateAtom t2 n v2 c2 (snd (CreateAtom t1 n v1 c1 w))) = snd (CreateAtom t1 n v1 c1 w) \<and>
   (m_atomsByName w n = None \<longrightarrow>
      m_type (heap (snd (CreateAtom t2 n v2 c2 (snd (CreateAtom t1 n v1 c1 w))))
                (fst (CreateAtom t1 n v1 c1 w))) = t1 \<and>
      m_truthValue (heap (snd (CreateAtom t2 n v2 c2 (snd (CreateAtom t1 n v1 c1 w))))
                (fst (CreateAtom t1 n v1 c1 w))) = v1 \<and>
      m_confidence (heap (snd (CreateAtom t2 n v2 c2 (snd (CreateAtom t1 n v1 c1 w))))
                (fst (CreateAtom t1 n v1 c1 w))) = c1) \<and>
   (\<forall>r. m_atomsByName w n = Some r \<longrightarrow>
      fst (CreateAtom t1 n v1 c1 w) = r \<and>
      snd (CreateAtom t2 n v2 c2 (snd (CreateAtom t1 n v1 c1 w))) = w)"
proof -
  let ?first = "CreateAtom t1 n v1 c1 w"
  have again: "CreateAtom t2 n v2 c2 (snd ?first) = (fst ?first, snd ?first)"
    by (rule CreateAtom_bound [OF CreateAtom_binds])
  have new: "m_atomsByName w n = None \<Longrightarrow>
      heap (snd ?first) (fst ?first) = Atom_ctor t1 n v1 c1 (s_nextId w)"
    using CreateAtom_new [of w n t1 v1 c1] by simp
  have old: "\<And>r. m_atomsByName w n = Some r \<Longrightarrow> fst ?first = r \<and> snd ?first = w"
    by (simp add: CreateAtom_bound)
  have kept: "m_atomsByName w n = None \<longrightarrow>
      m_type (heap (snd ?first) (fst ?first)) = t1 \<and>
      m_truthValue (heap (snd ?first) (fst ?first)) = v1 \<and>
      m_confidence (heap (snd ?first) (fst ?first)) = c1"
    using new by (simp add: Atom_ctor_def)
  have existing: "\<forall>r. m_atomsByName w n = Some r \<longrightarrow> fst ?first = r \<and> snd ?first = w"
    using old by blast
  show ?thesis
    unfolding again fst_conv snd_conv using kept existing by blast
qed

text \<open>
  The first example scenario of the specification: \<open>A\<close> is created at 0.8 / 0.9 in a
  fresh store and requested again at 0.1 / 0.1.
\<close>

theorem C1_createOrGet_idempotent_witness:
  "m_atomsByName fresh_store ''A'' = None \<and>
   fst (CreateAtom Concept ''A'' 0.1 0.1 (snd (CreateAtom Concept ''A'' 0.8 0.9 fresh_store)))
     = fst (CreateAtom Concept ''A'' 0.8 0.9 fresh_store) \<and>
   m_truthValue (heap (snd (CreateAtom Concept ''A'' 0.1 0.1
                        (snd (CreateAtom Concept ''A'' 0.8 0.9 fresh_store))))
                (fst (CreateAtom Concept ''A'' 0.8 0.9 fresh_store))) = 0.8 \<and>
   m_confidence (heap (snd (CreateAtom Concept ''A'' 0.1 0.1
                        (snd (CreateAtom Concept ''A'' 0.8 0.9 fresh_store))))
                (fst (CreateAtom Concept ''A'' 0.8 0.9 fresh_store))) = 0.9 \<and>
   m_atomsByName fresh_store ''Self'' = Some 0 \<and>
   fst (CreateAtom Goal ''Self'' 0.3 0.3 fresh_store) = 0 \<and>
   snd (CreateAtom Rule ''Self'' 0.1 0.1 (snd (CreateAtom Goal ''Self'' 0.3 0.3 fresh_store)))
     = fresh_store"
proof -
  have unbound: "m_atomsByName fresh_store ''A'' = None"
    by (simp add: fresh_store_def AtomSpace_ctor_def process_start_def CreateAtom_def Let_def)
  have bound: "m_atomsByName fresh_store ''Self'' = Some 0"
    by (simp add: fresh_store_def AtomSpace_ctor_def process_start_def CreateAtom_def Let_def)
  note idem =
    C1_createOrGet_idempotent [of Concept "''A''" "0.1" "0.1" Concept "0.8" "0.9" fresh_store]
  note same =
    C1_createOrGet_idempotent [of Rule "''Self''" "0.1" "0.1" Goal "0.3" "0.3" fresh_store]
  show ?thesis
    using unbound bound idem same by blast
qed

text \<open>
  C1 as stated fails for a name that is already bound: a fresh store binds \<open>Self\<close> at
  truth 1, so requesting \<open>Self\<close> at 0.3 and then at 0.1 returns that node both times with
  truth 1, not 0.3.
\<close>

theorem C1_bound_name_counterexample:
  "FindAtom fresh_store ''Self'' = Some 0 \<and>
   fst (CreateAtom Concept ''Self'' 0.3 0.3 fresh_store) = 0 \<and>
   fst (CreateAtom Concept ''Self'' 0.1 0.1 (snd (CreateAtom Concept ''Self'' 0.3 0.3 fresh_store))) = 0 \<and>
   m_truthValue (heap (snd (CreateAtom Concept ''Self'' 0.1 0.1
                        (snd (CreateAtom Concept ''Self'' 0.3 0.3 fresh_store)))) 0) = 1 \<and>
   m_truthValue (heap (snd (CreateAtom Concept ''Self'' 0.1 0.1
                        (snd (CreateAtom Concept ''Self'' 0.3 0.3 fresh_store)))) 0) \<noteq> 0.3"
  by (simp add: fresh_store_def AtomSpace_ctor_def process_start_def CreateAtom_def
      Atom_ctor_def FindAtom_def Let_def)

section \<open>The constructor of the graph store\<close>

lemma word64_succ_distinct:
  "(i::64 word) + 1 \<noteq> i" "i + 1 + 1 \<noteq> i" "i + 1 + 1 \<noteq> i + 1"
  by simp_all

lemma AtomSpace_ctor_tables:
  "m_atoms (AtomSpace_ctor w) =
     [(s_nextId w, next_ref w), (s_nextId w + 1, Suc (next_ref w)),
      (s_nextId w + 1 + 1, Suc (Suc (next_ref w)))]"
  "m_atomsByName (AtomSpace_ctor w) =
     [''Self'' \<mapsto> next_ref w, ''System'' \<mapsto> Suc (next_ref w), ''WSL'' \<mapsto> Suc (Suc (next_ref w))]"
  "heap (AtomSpace_ctor w) =
     (heap w)(next_ref w := Atom_ctor Concept ''Self'' 1 1 (s_nextId w),
              Suc (next_ref w) := Atom_ctor Concept ''System'' 1 1 (s_nextId w + 1),
              Suc (Suc (next_ref w)) := Atom_ctor Concept ''WSL'' 1 1 (s_nextId w + 1 + 1))"
  using word64_succ_distinct [of "s_nextId w"]
  by (simp_all add: AtomSpace_ctor_def CreateAtom_def Atom_ctor_def Let_def
      del: add_2_eq_Suc add_2_eq_Suc')

text \<open>
  C9. Whatever the process did before, a freshly constructed graph store holds three
  atoms: \<open>GetAtomCount\<close> is 3, all three are Concepts (the Concepts of the table are all
  its entries), they are named \<open>Self\<close>, \<open>System\<close> and \<open>WSL\<close>, \<open>FindAtom\<close> finds each of the
  three names, and no other name is bound.
\<close>

theorem C9_fresh_store_has_three_concepts:
  "GetAtomCount (AtomSpace_ctor w) = 3 \<and>
   map snd (m_atoms (AtomSpace_ctor w)) = [next_ref w, next_ref w + 1, next_ref w + 2] \<and>
   FindAtomsByType (AtomSpace_ctor w) Concept = [next_ref w, next_ref w + 1, next_ref w + 2] \<and>
   FindAtom (AtomSpace_ctor w) ''Self'' = Some (next_ref w) \<and>
   FindAtom (AtomSpace_ctor w) ''System'' = Some (next_ref w + 1) \<and>
   FindAtom (AtomSpace_ctor w) ''WSL'' = Some (next_ref w + 2) \<and>
   m_name (heap (AtomSpace_ctor w) (next_ref w)) = ''Self'' \<and>
   m_name (heap (AtomSpace_ctor w) (next_ref w + 1)) = ''System'' \<and>
   m_name (heap (AtomSpace_ctor w) (next_ref w + 2)) = ''WSL'' \<and>
   dom (m_atomsByName (AtomSpace_ctor w)) = {''Self'', ''System'', ''WSL''}"
proof -
  have count: "GetAtomCount (AtomSpace_ctor w) = 3"
    by (simp add: GetAtomCount_def AtomSpace_ctor_tables)
  have refs: "map snd (m_atoms (AtomSpace_ctor w)) = [next_ref w, next_ref w + 1, next_ref w + 2]"
    by (simp add: AtomSpace_ctor_tables)
  have concepts:
    "FindAtomsByType (AtomSpace_ctor w) Concept = [next_ref w, next_ref w + 1, next_ref w + 2]"
    by (simp add: FindAtomsByType_def AtomSpace_ctor_tables Atom_ctor_def)
  have names: "FindAtom (AtomSpace_ctor w) ''Self'' = Some (next_ref w)"
    "FindAtom (AtomSpace_ctor w) ''System'' = Some (next_ref w + 1)"
    "FindAtom (AtomSpace_ctor w) ''WSL'' = Some (next_ref w + 2)"
    by (simp_all add: FindAtom_def AtomSpace_ctor_tables)
  have objs: "m_name (heap (AtomSpace_ctor w) (next_ref w)) = ''Self''"
    "m_name (heap (AtomSpace_ctor w) (next_ref w + 1)) = ''System''"
    "m_name (heap (AtomSpace_ctor w) (next_ref w + 2)) = ''WSL''"
    by (simp_all add: AtomSpace_ctor_tables Atom_ctor_def)
  have bound: "dom (m_atomsByName (AtomSpace_ctor w)) = {''Self'', ''System'', ''WSL''}"
    by (auto simp add: AtomSpace_ctor_tables)
  show ?thesis
    using count refs concepts names objs bound by blast
qed

section \<open>The attention pass\<close>

text \<open>
  The pass changes attention only. A sender whose attention is not negative spreads a
  non-negative amount, so every other node cannot lose; the node itself is set to the
  floored decay of what it held when its turn came. The bounds below are lower bounds
  that do not count on the amount a node receives: in \<^verbatim>\<open>float\<close> arithmetic a share
  far smaller than the attention of its target is absorbed by rounding, so no strict
  gain is stated.
\<close>

lemma spread_mono:
  "0 \<le> s \<Longrightarrow> GetAttention h x \<le> GetAttention (spread s ls h) x"
proof (induction ls arbitrary: h)
  case Nil
  then show ?case by simp
next
  case (Cons l ls)
  have "GetAttention h x \<le> GetAttention (SetAttention l (GetAttention h l + s) h) x"
    using Cons.prems by (simp add: SetAttention_def GetAttention_def)
  also have "\<dots> \<le> GetAttention (spread s ls (SetAttention l (GetAttention h l + s) h)) x"
    by (rule Cons.IH [OF Cons.prems])
  finally show ?case by simp
qed

lemma step_self:
  "GetAttention (attention_step r h) r = max 0.01 (0.95 * GetAttention h r)"
  by (simp add: attention_step_def Let_def SetAttention_def GetAttention_def mult.commute)

lemma spread_amount_nonneg:
  "0 \<le> GetAttention h r \<Longrightarrow> 0 \<le> GetAttention h r * 0.1 / real (length (m_outgoingLinks (h r)))"
  by simp

lemma step_other_mono:
  assumes "0 \<le> GetAttention h r" and "x \<noteq> r"
  shows "GetAttention h x \<le> GetAttention (attention_step r h) x"
proof -
  let ?s = "GetAttention h r * 0.1 / real (length (m_outgoingLinks (h r)))"
  have "GetAttention h x \<le> GetAttention (spread ?s (m_outgoingLinks (h r)) h) x"
    by (rule spread_mono [OF spread_amount_nonneg [OF assms(1)]])
  with assms(2) show ?thesis
    by (simp add: attention_step_def Let_def SetAttention_def GetAttention_def)
qed

lemma step_nonneg:
  assumes "0 \<le> GetAttention h r" and "0 \<le> GetAttention h x"
  shows "0 \<le> GetAttention (attention_step r h) x"
proof (cases "x = r")
  case True
  then show ?thesis by (simp add: step_self)
next
  case False
  from step_other_mono [OF assms(1) False] assms(2) show ?thesis by simp
qed


lemma loop_nonneg:
  "\<forall>r\<in>set rs. 0 \<le> GetAttention h r \<Longrightarrow> 0 \<le> GetAttention h x \<Longrightarrow>
     0 \<le> GetAttention (attention_loop rs h) x"
proof (induction rs arbitrary: h)
  case Nil
  then show ?case by simp
next
  case (Cons r rs)
  have r: "0 \<le> GetAttention h r" using Cons.prems(1) by simp
  have "\<forall>y\<in>set rs. 0 \<le> GetAttention (attention_step r h) y"
    using Cons.prems(1) step_nonneg [OF r] by simp
  moreover have "0 \<le> GetAttention (attention_step r h) x"
    by (rule step_nonneg [OF r Cons.prems(2)])
  ultimately show ?case using Cons.IH by simp
qed

lemma loop_unvisited_mono:
  "\<forall>r\<in>set rs. 0 \<le> GetAttention h r \<Longrightarrow> x \<notin> set rs \<Longrightarrow>
     GetAttention h x \<le> GetAttention (attention_loop rs h) x"
proof (induction rs arbitrary: h)
  case Nil
  then show ?case by simp
next
  case (Cons r rs)
  have r: "0 \<le> GetAttention h r" using Cons.prems(1) by simp
  have x: "x \<noteq> r" "x \<notin> set rs" using Cons.prems(2) by simp_all
  have rest: "\<forall>y\<in>set rs. 0 \<le> GetAttention (attention_step r h) y"
    using Cons.prems(1) step_nonneg [OF r] by simp
  have "GetAttention h x \<le> GetAttention (attention_step r h) x"
    by (rule step_other_mono [OF r x(1)])
  also have "\<dots> \<le> GetAttention (attention_loop rs (attention_step r h)) x"
    by (rule Cons.IH [OF rest x(2)])
  finally show ?case by simp
qed

lemma loop_floor:
  "\<forall>r\<in>set rs. 0 \<le> GetAttention h r \<Longrightarrow> x \<in> set rs \<Longrightarrow>
     0.01 \<le> GetAttention (attention_loop rs h) x"
proof (induction rs arbitrary: h)
  case Nil
  then show ?case by simp
next
  case (Cons r rs)
  have r: "0 \<le> GetAttention h r" using Cons.prems(1) by simp
  have rest: "\<forall>y\<in>set rs. 0 \<le> GetAttention (attention_step r h) y"
    using Cons.prems(1) step_nonneg [OF r] by simp
  show ?case
  proof (cases "x \<in> set rs")
    case True
    from Cons.IH [OF rest True] show ?thesis by simp
  next
    case False
    with Cons.prems(2) have "x = r" by simp
    have "0.01 \<le> GetAttention (attention_step r h) r" by (simp add: step_self)
    also have "\<dots> \<le> GetAttention (attention_loop rs (attention_step r h)) r"
      using False \<open>x = r\<close> by (intro loop_unvisited_mono [OF rest]) simp
    finally show ?thesis using \<open>x = r\<close> by simp
  qed
qed


lemmas scenario_defs =
  fresh_store_def AtomSpace_ctor_def process_start_def CreateAtom_def Atom_ctor_def Let_def

text \<open>
  C2, as amended. \<^verbatim>\<open>SetAttention\<close> stores the caller's value as it is, with no floor.
  After one pass of \<^verbatim>\<open>UpdateAttentionValues\<close> every node of the table has attention at
  least 0.01, provided no node of the table had negative attention before the pass;
  this holds for every iteration order.
\<close>

theorem C2_attention_floor:
  "GetAttention (SetAttention r v h) r = v \<and>
   ((\<forall>x\<in>set (map snd (m_atoms w)). 0 \<le> GetAttention (heap w) x) \<longrightarrow>
    (\<forall>x\<in>set (map snd (m_atoms w)). 0.01 \<le> GetAttention (heap (UpdateAttentionValues w)) x))"
proof -
  have setter: "GetAttention (SetAttention r v h) r = v"
    by (simp add: GetAttention_def SetAttention_def)
  have pass: "0.01 \<le> GetAttention (heap (UpdateAttentionValues w)) x"
    if "\<forall>x\<in>set (map snd (m_atoms w)). 0 \<le> GetAttention (heap w) x"
      and "x \<in> set (map snd (m_atoms w))" for x
    using loop_floor [OF that] by (simp add: UpdateAttentionValues_def)
  show ?thesis using setter pass by blast
qed

theorem C2_attention_floor_witness:
  "map snd (m_atoms (link_example 1 0.1)) = [0, 1, 2, 3, 4] \<and>
   map (GetAttention (heap (link_example 1 0.1))) [0, 1, 2, 3, 4] = [0.5, 0.5, 0.5, 1, 0.1] \<and>
   GetAttention (SetAttention 3 1 (heap (link_example 1 0.1))) 3 = 1 \<and>
   0.01 \<le> GetAttention (heap (UpdateAttentionValues (link_example 1 0.1))) 0 \<and>
   0.01 \<le> GetAttention (heap (UpdateAttentionValues (link_example 1 0.1))) 1 \<and>
   0.01 \<le> GetAttention (heap (UpdateAttentionValues (link_example 1 0.1))) 2 \<and>
   0.01 \<le> GetAttention (heap (UpdateAttentionValues (link_example 1 0.1))) 3 \<and>
   0.01 \<le> GetAttention (heap (UpdateAttentionValues (link_example 1 0.1))) 4"
proof -
  have table: "map snd (m_atoms (link_example 1 0.1)) = [0, 1, 2, 3, 4]"
    by (simp add: link_example_def scenario_defs)
  have before: "map (GetAttention (heap (link_example 1 0.1))) [0, 1, 2, 3, 4] = [0.5, 0.5, 0.5, 1, 0.1]"
    by (simp add: link_example_def scenario_defs GetAttention_def SetAttention_def
        AddOutgoingLink_def)
  have nonneg: "\<forall>x\<in>set (map snd (m_atoms (link_example 1 0.1))).
                  0 \<le> GetAttention (heap (link_example 1 0.1)) x"
    using before unfolding table by simp
  note floor = C2_attention_floor [of 3 1 "heap (link_example 1 0.1)" "link_example 1 0.1"]
  from floor have setter: "GetAttention (SetAttention 3 1 (heap (link_example 1 0.1))) 3 = 1"
    by (rule conjunct1)
  from floor nonneg
  have "\<forall>x\<in>set (map snd (m_atoms (link_example 1 0.1))).
          0.01 \<le> GetAttention (heap (UpdateAttentionValues (link_example 1 0.1))) x"
    by blast
  then have after: "\<forall>x\<in>set [0, 1, 2, 3, 4::nat].
          0.01 \<le> GetAttention (heap (UpdateAttentionValues (link_example 1 0.1))) x"
    unfolding table .
  show ?thesis
    using table before setter after by simp
qed

text \<open>
  C2 as stated fails for \<^verbatim>\<open>SetAttention\<close>: the node \<open>Self\<close> of a fresh store holds
  attention 0 after \<^verbatim>\<open>SetAttention(0)\<close>. A pass can then leave a node below the floor
  as well: with \<open>A\<close> set to -10 and linked to \<open>B\<close>, and \<open>B\<close> visited first, \<open>B\<close> is
  floored to 0.475 and afterwards receives the share -1 of \<open>A\<close>.
\<close>

theorem C2_setAttention_counterexample:
  "FindAtom fresh_store ''Self'' = Some 0 \<and>
   GetAttention (SetAttention 0 0 (heap fresh_store)) 0 = 0 \<and>
   \<not> 0.01 \<le> GetAttention (SetAttention 0 0 (heap fresh_store)) 0 \<and>
   map snd (m_atoms (link_example_rev (- 10) 0.5)) = [0, 1, 2, 3, 4] \<and>
   m_outgoingLinks (heap (link_example_rev (- 10) 0.5) 4) = [3] \<and>
   GetAttention (heap (link_example_rev (- 10) 0.5)) 4 = - 10 \<and>
   GetAttention (heap (link_example_rev (- 10) 0.5)) 3 = 0.5 \<and>
   GetAttention (heap (UpdateAttentionValues (link_example_rev (- 10) 0.5))) 3 = - 0.525 \<and>
   \<not> 0.01 \<le> GetAttention (heap (UpdateAttentionValues (link_example_rev (- 10) 0.5))) 3"
  by (simp add: link_example_rev_def scenario_defs FindAtom_def UpdateAttentionValues_def
      attention_step_def GetAttention_def SetAttention_def AddOutgoingLink_def)




section \<open>Initial attention\<close>

lemma CognitiveAgent_ctor_world:
  "snd (CognitiveAgent_ctor name True w) =
     (snd (CreateAtom Agent (''Agent:'' @ name) 1 1 w))
       \<lparr>heap := SetAttention (fst (CreateAtom Agent (''Agent:'' @ name) 1 1 w)) 1
                  (heap (snd (CreateAtom Agent (''Agent:'' @ name) 1 1 w)))\<rparr>"
  by (simp add: CognitiveAgent_ctor_def Let_def split_beta)

lemma CreateAtom_heap_other:
  "x \<noteq> fst (CreateAtom t n v c w) \<Longrightarrow> heap (snd (CreateAtom t n v c w)) x = heap w x"
  by (simp add: CreateAtom_def Let_def split: option.splits)

lemma update_entry: "(k, v) \<in> set (AList.update k v al)"
  by (induction al) auto

lemma CreateAtom_new_entry:
  "m_atomsByName w n = None \<Longrightarrow>
     fst (CreateAtom t n v c w) \<in> set (map snd (m_atoms (snd (CreateAtom t n v c w))))"
  using update_entry [of "s_nextId w" "next_ref w" "m_atoms w"]
  by (simp add: CreateAtom_def Let_def Atom_ctor_def image_iff) force

text \<open>
  C10. The constructor of \<open>Atom\<close> sets attention 0.5 whatever the type, name, truth and
  confidence, which is not above the threshold 0.7 of \<^verbatim>\<open>Perceive\<close>; so a node that
  \<open>CreateAtom\<close> has just created is in the table, holds attention 0.5 and is not among the
  nodes the query of \<^verbatim>\<open>Perceive\<close> returns. The constructor of an agent bound to a
  store leaves the node bound to the name \<open>Agent:\<close> followed by the agent's name with
  attention 1 and changes no other object.
\<close>

theorem C10_initial_attention:
  "m_attention (Atom_ctor t n v c i) = 0.5 \<and>
   \<not> m_attention (Atom_ctor t n v c i) > 0.7 \<and>
   (m_atomsByName w n = None \<longrightarrow>
      fst (CreateAtom t n v c w) \<in> set (map snd (m_atoms (snd (CreateAtom t n v c w)))) \<and>
      GetAttention (heap (snd (CreateAtom t n v c w))) (fst (CreateAtom t n v c w)) = 0.5 \<and>
      fst (CreateAtom t n v c w)
        \<notin> set (Query (\<lambda>atom. m_attention atom > 0.7) (snd (CreateAtom t n v c w)))) \<and>
   (\<exists>selfConcept.
      FindAtom (snd (CognitiveAgent_ctor name True w)) (''Agent:'' @ name) = Some selfConcept \<and>
      GetAttention (heap (snd (CognitiveAgent_ctor name True w))) selfConcept = 1 \<and>
      (\<forall>x. x \<noteq> selfConcept \<longrightarrow> heap (snd (CognitiveAgent_ctor name True w)) x = heap w x))"
proof -
  have ctor: "m_attention (Atom_ctor t n v c i) = 0.5"
    by (simp add: Atom_ctor_def)
  have created: "fst (CreateAtom t n v c w) \<in> set (map snd (m_atoms (snd (CreateAtom t n v c w)))) \<and>
      GetAttention (heap (snd (CreateAtom t n v c w))) (fst (CreateAtom t n v c w)) = 0.5 \<and>
      fst (CreateAtom t n v c w)
        \<notin> set (Query (\<lambda>atom. m_attention atom > 0.7) (snd (CreateAtom t n v c w)))"
    if "m_atomsByName w n = None"
  proof -
    have "GetAttention (heap (snd (CreateAtom t n v c w))) (fst (CreateAtom t n v c w)) = 0.5"
      using CreateAtom_new [OF that, of t v c] by (simp add: GetAttention_def Atom_ctor_def)
    then show ?thesis
      using CreateAtom_new_entry [OF that, of t v c] by (simp add: Query_def GetAttention_def)
  qed
  let ?made = "CreateAtom Agent (''Agent:'' @ name) 1 1 w"
  let ?w = "snd (CognitiveAgent_ctor name True w)"
  have bound: "FindAtom ?w (''Agent:'' @ name) = Some (fst ?made)"
    by (simp add: CognitiveAgent_ctor_world FindAtom_def CreateAtom_binds)
  have raised: "GetAttention (heap ?w) (fst ?made) = 1"
    by (simp add: CognitiveAgent_ctor_world GetAttention_def SetAttention_def)
  have others: "heap ?w x = heap w x" if "x \<noteq> fst ?made" for x
    using that by (simp add: CognitiveAgent_ctor_world SetAttention_def CreateAtom_heap_other)
  have agent: "\<exists>selfConcept.
      FindAtom ?w (''Agent:'' @ name) = Some selfConcept \<and>
      GetAttention (heap ?w) selfConcept = 1 \<and>
      (\<forall>x. x \<noteq> selfConcept \<longrightarrow> heap ?w x = heap w x)"
    using bound raised others by blast
  show ?thesis
    using ctor created agent by simp
qed

theorem C10_initial_attention_witness:
  "m_atomsByName fresh_store ''A'' = None \<and>
   fst (CreateAtom Goal ''A'' 0.2 0.3 fresh_store) = 3 \<and>
   GetAttention (heap (snd (CreateAtom Goal ''A'' 0.2 0.3 fresh_store))) 3 = 0.5 \<and>
   3 \<notin> set (Query (\<lambda>atom. m_attention atom > 0.7) (snd (CreateAtom Goal ''A'' 0.2 0.3 fresh_store))) \<and>
   FindAtom (snd (CognitiveAgent_ctor ''a'' True fresh_store)) ''Agent:a'' = Some 3 \<and>
   GetAttention (heap (snd (CognitiveAgent_ctor ''a'' True fresh_store))) 3 = 1 \<and>
   heap (snd (CognitiveAgent_ctor ''a'' True fresh_store)) 0 = heap fresh_store 0"
proof -
  have unbound: "m_atomsByName fresh_store ''A'' = None"
    by (simp add: scenario_defs)
  have made: "fst (CreateAtom Goal ''A'' 0.2 0.3 fresh_store) = 3"
    by (simp add: scenario_defs)
  have self: "FindAtom (snd (CognitiveAgent_ctor ''a'' True fresh_store)) ''Agent:a'' = Some 3"
    by (simp add: CognitiveAgent_ctor_def FindAtom_def scenario_defs)
  note inst = C10_initial_attention [of Goal "''A''" "0.2" "0.3" 0 fresh_store "''a''"]
  from inst unbound made
  have node: "GetAttention (heap (snd (CreateAtom Goal ''A'' 0.2 0.3 fresh_store))) 3 = 0.5 \<and>
    3 \<notin> set (Query (\<lambda>atom. m_attention atom > 0.7) (snd (CreateAtom Goal ''A'' 0.2 0.3 fresh_store)))"
    by simp
  from inst self
  have agent: "GetAttention (heap (snd (CognitiveAgent_ctor ''a'' True fresh_store))) 3 = 1 \<and>
    heap (snd (CognitiveAgent_ctor ''a'' True fresh_store)) 0 = heap fresh_store 0"
    by auto
  show ?thesis
    using unbound made node self agent by blast
qed

section \<open>The memory list\<close>

lemma perceive_loop_memories:
  "\<exists>new. m_memories (fst (perceive_loop atoms agent w)) = m_memories agent @ new \<and>
          length new = length atoms"
proof (induction atoms arbitrary: agent w)
  case Nil
  then show ?case by simp
next
  case (Cons atom rest)
  let ?made = "CreateAtom Memory (''Perceived:'' @ m_name (heap w atom))
                 (m_truthValue (heap w atom)) (m_confidence (heap w atom)) w"
  let ?agent = "agent\<lparr>m_memories := m_memories agent @ [fst ?made]\<rparr>"
  from Cons.IH [of ?agent "snd ?made"]
  obtain new where new: "m_memories (fst (perceive_loop rest ?agent (snd ?made))) =
      m_memories ?agent @ new" "length new = length rest"
    by blast
  have "m_memories (fst (perceive_loop (atom # rest) agent w)) =
      m_memories agent @ (fst ?made # new)"
    using new(1) by (simp add: split_beta)
  moreover have "length (fst ?made # new) = length (atom # rest)"
    using new(2) by simp
  ultimately show ?case by blast
qed

lemma ReceiveMessage_memories:
  "m_atomSpace agent \<Longrightarrow>
     m_atomSpace (fst (ReceiveMessage f m agent w)) \<and>
     length (m_memories (fst (ReceiveMessage f m agent w))) = Suc (length (m_memories agent))"
  by (simp add: ReceiveMessage_def split_beta Let_def)

lemma receive_tick_count:
  "m_atomSpace (fst s) \<Longrightarrow>
     m_atomSpace (fst ((receive_tick ^^ k) s)) \<and>
     length (m_memories (fst ((receive_tick ^^ k) s))) = length (m_memories (fst s)) + k"
proof (induction k)
  case 0
  then show ?case by simp
next
  case (Suc k)
  let ?s = "(receive_tick ^^ k) s"
  have step: "(receive_tick ^^ Suc k) s = ReceiveMessage ''System'' ''tick'' (fst ?s) (snd ?s)"
    by (simp add: receive_tick_def [of ?s])
  from Suc.IH [OF Suc.prems]
    ReceiveMessage_memories [of "fst ?s" "''System''" "''tick''" "snd ?s"]
  show ?case unfolding step by simp
qed

lemma agent_after_messages_count:
  "m_atomSpace (fst (agent_after_messages k)) \<and>
   length (m_memories (fst (agent_after_messages k))) = k"
proof -
  have "m_atomSpace (fst (CognitiveAgent_ctor ''a'' True fresh_store))"
    "m_memories (fst (CognitiveAgent_ctor ''a'' True fresh_store)) = []"
    by (simp_all add: CognitiveAgent_ctor_def split_beta Let_def)
  then show ?thesis
    using receive_tick_count [of "CognitiveAgent_ctor ''a'' True fresh_store" k]
    by (simp add: agent_after_messages_def)
qed

text \<open>
  C5, as amended. \<^verbatim>\<open>Learn\<close> of an agent bound to a store that finds more than 1000
  entries removes exactly the 100 oldest and keeps the rest in order; otherwise it leaves
  the list as it is. \<^verbatim>\<open>Perceive\<close> appends one entry for each node it perceives and
  \<^verbatim>\<open>ReceiveMessage\<close> appends one, neither removes any. So the list is not bounded by
  1000: it holds \<open>n - 100\<close> entries after a \<^verbatim>\<open>Learn\<close> that found \<open>n > 1000\<close>.
\<close>

theorem C5_learn_trims_memory:
  "m_memories (fst (Learn agent w)) =
     (if m_atomSpace agent \<and> 1000 < length (m_memories agent)
      then drop 100 (m_memories agent) else m_memories agent) \<and>
   (m_atomSpace agent \<and> 1000 < length (m_memories agent) \<longrightarrow>
      m_memories agent = take 100 (m_memories agent) @ m_memories (fst (Learn agent w)) \<and>
      length (m_memories (fst (Learn agent w))) = length (m_memories agent) - 100) \<and>
   (m_atomSpace agent \<longrightarrow>
      length (m_memories (fst (Perceive agent w))) =
        length (m_memories agent) + length (Query (\<lambda>atom. m_attention atom > 0.7) w) \<and>
      take (length (m_memories agent)) (m_memories (fst (Perceive agent w))) = m_memories agent \<and>
      length (m_memories (fst (ReceiveMessage fromAgent message agent w))) =
        Suc (length (m_memories agent)))"
proof -
  have learn: "m_memories (fst (Learn agent w)) =
     (if m_atomSpace agent \<and> 1000 < length (m_memories agent)
      then drop 100 (m_memories agent) else m_memories agent)"
    by (simp add: Learn_def Let_def)
  have grow: "length (m_memories (fst (Perceive agent w))) =
        length (m_memories agent) + length (Query (\<lambda>atom. m_attention atom > 0.7) w) \<and>
      take (length (m_memories agent)) (m_memories (fst (Perceive agent w))) = m_memories agent"
    if "m_atomSpace agent"
  proof -
    let ?seen = "Query (\<lambda>atom. m_attention atom > 0.7) w"
    have stage: "Perceive agent w = perceive_loop ?seen (agent\<lparr>m_state := Active\<rparr>) w"
      using that by (simp add: Perceive_def)
    from perceive_loop_memories [of ?seen "agent\<lparr>m_state := Active\<rparr>" w]
    obtain new where "m_memories (fst (Perceive agent w)) = m_memories agent @ new"
      "length new = length ?seen"
      unfolding stage by auto
    then show ?thesis by simp
  qed
  show ?thesis
    using grow ReceiveMessage_memories [of agent fromAgent message w]
    by (simp add: learn)
qed

text \<open>An agent whose list holds 1001 entries keeps the newest 901.\<close>

theorem C5_learn_trims_memory_witness:
  "m_atomSpace (fst (agent_after_messages 1001)) \<and>
   length (m_memories (fst (agent_after_messages 1001))) = 1001 \<and>
   m_memories (fst (Learn (fst (agent_after_messages 1001)) (snd (agent_after_messages 1001))))
     = drop 100 (m_memories (fst (agent_after_messages 1001))) \<and>
   length (m_memories (fst (Learn (fst (agent_after_messages 1001)) (snd (agent_after_messages 1001)))))
     = 901 \<and>
   length (m_memories (fst (ReceiveMessage ''System'' ''tick'' (fst (agent_after_messages 1001))
                              (snd (agent_after_messages 1001))))) = 1002"
proof -
  let ?agent = "fst (agent_after_messages 1001)"
  let ?w = "snd (agent_after_messages 1001)"
  have bound: "m_atomSpace ?agent" and full: "length (m_memories ?agent) = 1001"
    using agent_after_messages_count [of 1001] by simp_all
  have over: "m_atomSpace ?agent \<and> 1000 < length (m_memories ?agent)"
    using bound full by simp
  note trim = C5_learn_trims_memory [of ?agent ?w "''System''" "''tick''"]
  from trim over have dropped: "m_memories (fst (Learn ?agent ?w)) = drop 100 (m_memories ?agent)"
    by presburger
  from trim over have "length (m_memories (fst (Learn ?agent ?w))) = length (m_memories ?agent) - 100"
    by blast
  then have left: "length (m_memories (fst (Learn ?agent ?w))) = 901"
    unfolding full by simp
  from trim bound
  have "length (m_memories (fst (ReceiveMessage ''System'' ''tick'' ?agent ?w)))
          = Suc (length (m_memories ?agent))"
    by blast
  then have more: "length (m_memories (fst (ReceiveMessage ''System'' ''tick'' ?agent ?w))) = 1002"
    unfolding full by simp
  show ?thesis
    using bound full dropped left more by blast
qed

text \<open>
  C5 as stated fails in its bound. After 1200 messages the list of an agent holds 1200
  entries, and the \<^verbatim>\<open>Learn\<close> stage that follows leaves 1100, more than 1000.
\<close>

theorem C5_memory_bound_counterexample:
  "length (m_memories (fst (agent_after_messages 1200))) = 1200 \<and>
   length (m_memories (fst (Learn (fst (agent_after_messages 1200)) (snd (agent_after_messages 1200)))))
     = 1100 \<and>
   \<not> length (m_memories (fst (Learn (fst (agent_after_messages 1200)) (snd (agent_after_messages 1200)))))
       \<le> 1000"
proof -
  let ?agent = "fst (agent_after_messages 1200)"
  let ?w = "snd (agent_after_messages 1200)"
  have bound: "m_atomSpace ?agent" and full: "length (m_memories ?agent) = 1200"
    using agent_after_messages_count [of 1200] by simp_all
  have "m_memories (fst (Learn ?agent ?w)) = drop 100 (m_memories ?agent)"
    using bound full by (simp add: Learn_def Let_def)
  then have left: "length (m_memories (fst (Learn ?agent ?w))) = 1100"
    using full by simp
  show ?thesis
    using full left by simp
qed

section \<open>The self-tuning step of the system\<close>

lemma spread_identity:
  "m_name (spread s ls h x) = m_name (h x) \<and> m_type (spread s ls h x) = m_type (h x)"
  by (induction ls arbitrary: h) (simp_all add: SetAttention_def)

lemma step_identity:
  "m_name (attention_step r h x) = m_name (h x) \<and> m_type (attention_step r h x) = m_type (h x)"
  by (simp add: attention_step_def Let_def SetAttention_def spread_identity)

lemma loop_identity:
  "m_name (attention_loop rs h x) = m_name (h x) \<and> m_type (attention_loop rs h x) = m_type (h x)"
  by (induction rs arbitrary: h) (simp_all add: step_identity)

lemma pass_identity:
  "m_atoms (UpdateAttentionValues w) = m_atoms w"
  "m_name (heap (UpdateAttentionValues w) x) = m_name (heap w x)"
  "FindAtomsByType (UpdateAttentionValues w) t = FindAtomsByType w t"
  by (simp_all add: UpdateAttentionValues_def FindAtomsByType_def loop_identity)

lemma resume_first_found:
  "\<forall>x\<in>set pre. m_state (snd x) \<noteq> Inactive \<Longrightarrow> m_state agent = Inactive \<Longrightarrow>
     resume_first (pre @ (name, agent) # post) = pre @ (name, Resume agent) # post"
  by (induction pre) auto

lemma resume_first_none:
  "\<forall>x\<in>set agents. m_state (snd x) \<noteq> Inactive \<Longrightarrow> resume_first agents = agents"
  by (induction agents) auto

lemma optimize_loop_skip:
  "\<forall>g\<in>set gs. m_name (heap w g) \<noteq> ''OptimizePerformance'' \<Longrightarrow> optimize_loop gs w sys = sys"
  by (induction gs arbitrary: sys) simp_all

lemma optimize_loop_once:
  "length (filter (\<lambda>g. m_name (heap w g) = ''OptimizePerformance'') gs) = 1 \<Longrightarrow>
     m_agents (optimize_loop gs w sys) =
       (if length (filter is_active (map snd (m_agents sys))) < length (m_agents sys) div 2
        then resume_first (m_agents sys) else m_agents sys)"
proof (induction gs)
  case Nil
  then show ?case by simp
next
  case (Cons g gs)
  show ?case
  proof (cases "m_name (heap w g) = ''OptimizePerformance''")
    case True
    with Cons.prems have "filter (\<lambda>g. m_name (heap w g) = ''OptimizePerformance'') gs = []"
      by simp
    then have "\<forall>g\<in>set gs. m_name (heap w g) \<noteq> ''OptimizePerformance''"
      by (simp add: filter_empty_conv)
    from optimize_loop_skip [OF this] True show ?thesis
      by (simp add: GetStatistics_def Let_def)
  next
    case False
    with Cons show ?thesis by simp
  qed
qed

text \<open>
  C7, as amended. Let the system be initialized and exactly one Goal node of the table be
  named \<open>OptimizePerformance\<close>. If the number of active agents is below the integer
  quotient of the number of registered agents by 2, then \<^verbatim>\<open>Resume\<close> is called on
  exactly the first agent in iteration order whose state is \<open>Inactive\<close>: it becomes
  \<open>Active\<close> unless its stop flag is set, and every other agent is unchanged; when no
  agent is \<open>Inactive\<close>, no agent is changed. Otherwise no agent is changed.
\<close>

theorem C7_updateSystem_resumes_first_inactive:
  assumes "m_initialized sys"
    and "length (filter (\<lambda>g. m_name (heap w g) = ''OptimizePerformance'')
                        (FindAtomsByType w Goal)) = 1"
  shows "activeAgents (GetStatistics sys w) = length (filter is_active (map snd (m_agents sys))) \<and>
    totalAgents (GetStatistics sys w) = length (m_agents sys) \<and>
    (\<not> activeAgents (GetStatistics sys w) < totalAgents (GetStatistics sys w) div 2 \<longrightarrow>
       m_agents (fst (UpdateSystem sys w)) = m_agents sys) \<and>
    (activeAgents (GetStatistics sys w) < totalAgents (GetStatistics sys w) div 2 \<longrightarrow>
       (\<forall>pre name agent post.
          m_agents sys = pre @ (name, agent) # post \<and>
          (\<forall>x\<in>set pre. m_state (snd x) \<noteq> Inactive) \<and> m_state agent = Inactive \<longrightarrow>
          m_agents (fst (UpdateSystem sys w)) =
            pre @ (name, agent\<lparr>m_state := (if m_shouldStop agent then Inactive else Active)\<rparr>) # post) \<and>
       ((\<forall>x\<in>set (m_agents sys). m_state (snd x) \<noteq> Inactive) \<longrightarrow>
          m_agents (fst (UpdateSystem sys w)) = m_agents sys))"
proof -
  let ?w = "UpdateAttentionValues w"
  have stats: "activeAgents (GetStatistics sys w) = length (filter is_active (map snd (m_agents sys)))"
    "totalAgents (GetStatistics sys w) = length (m_agents sys)"
    by (simp_all add: GetStatistics_def)
  have goals: "length (filter (\<lambda>g. m_name (heap ?w g) = ''OptimizePerformance'')
                         (FindAtomsByType ?w Goal)) = 1"
    using assms(2) by (simp add: pass_identity)
  have after: "m_agents (fst (UpdateSystem sys w)) =
      (if length (filter is_active (map snd (m_agents sys))) < length (m_agents sys) div 2
       then resume_first (m_agents sys) else m_agents sys)"
    using assms(1) optimize_loop_once [OF goals, of sys] by (simp add: UpdateSystem_def Let_def)
  have resumed: "Resume agent = agent\<lparr>m_state := (if m_shouldStop agent then Inactive else Active)\<rparr>"
    if "m_state agent = Inactive" for agent :: CognitiveAgent
    using that by (simp add: Resume_def)
  show ?thesis
    unfolding stats after
    using resume_first_found resume_first_none resumed by auto
qed

lemmas system_defs =
  system_with_agents_def create_agent_def CognitiveSystem_ctor_def Initialize_def
  CreateAgent_def CognitiveAgent_ctor_def AddGoal_def SetConfiguration_def SetAttention_def
  scenario_defs

text \<open>Two registered agents, both inactive: the first is resumed, the second is not.\<close>

theorem C7_updateSystem_resumes_first_inactive_witness:
  "m_initialized (fst (system_with_agents [''a'', ''b''])) \<and>
   FindAtomsByType (snd (system_with_agents [''a'', ''b''])) Goal = [4, 5, 7, 9] \<and>
   map (\<lambda>g. m_name (heap (snd (system_with_agents [''a'', ''b''])) g)) [4, 5, 7, 9] =
     [''SystemStability'', ''OptimizePerformance'', ''AgentGoal:a'', ''AgentGoal:b''] \<and>
   map fst (m_agents (fst (system_with_agents [''a'', ''b'']))) = [''a'', ''b''] \<and>
   map (\<lambda>x. m_state (snd x)) (m_agents (fst (system_with_agents [''a'', ''b'']))) =
     [Inactive, Inactive] \<and>
   map fst (m_agents (fst (UpdateSystem (fst (system_with_agents [''a'', ''b'']))
                                       (snd (system_with_agents [''a'', ''b'']))))) = [''a'', ''b''] \<and>
   map (\<lambda>x. m_state (snd x))
       (m_agents (fst (UpdateSystem (fst (system_with_agents [''a'', ''b'']))
                                    (snd (system_with_agents [''a'', ''b'']))))) =
     [Active, Inactive]"
proof -
  let ?sys = "fst (system_with_agents [''a'', ''b''])"
  let ?w = "snd (system_with_agents [''a'', ''b''])"
  let ?a = "\<lparr>m_agentName = ''a'', m_atomSpace = True, m_state = Inactive,
             m_shouldStop = False, m_goals = [7], m_memories = []\<rparr>"
  let ?b = "\<lparr>m_agentName = ''b'', m_atomSpace = True, m_state = Inactive,
             m_shouldStop = False, m_goals = [9], m_memories = []\<rparr>"
  have init: "m_initialized ?sys"
    by (simp add: system_defs)
  have goals: "FindAtomsByType ?w Goal = [4, 5, 7, 9]"
    by (simp add: system_defs FindAtomsByType_def)
  have names: "map (\<lambda>g. m_name (heap ?w g)) [4, 5, 7, 9] =
     [''SystemStability'', ''OptimizePerformance'', ''AgentGoal:a'', ''AgentGoal:b'']"
    by (simp add: system_defs)
  have agents: "m_agents ?sys = [] @ (''a'', ?a) # [(''b'', ?b)]"
    by (simp add: system_defs)
  have one: "length (filter (\<lambda>g. m_name (heap ?w g) = ''OptimizePerformance'')
                            (FindAtomsByType ?w Goal)) = 1"
    using names unfolding goals by simp
  have few: "activeAgents (GetStatistics ?sys ?w) < totalAgents (GetStatistics ?sys ?w) div 2"
    unfolding GetStatistics_def using agents by (simp add: is_active_def)
  have first: "(\<forall>x\<in>set []. m_state (snd x) \<noteq> Inactive) \<and> m_state ?a = Inactive"
    by simp
  from C7_updateSystem_resumes_first_inactive [OF init one] few agents first
  have "m_agents (fst (UpdateSystem ?sys ?w)) =
      [] @ (''a'', ?a\<lparr>m_state := (if m_shouldStop ?a then Inactive else Active)\<rparr>) # [(''b'', ?b)]"
    by blast
  then have after: "map fst (m_agents (fst (UpdateSystem ?sys ?w))) = [''a'', ''b'']"
    "map (\<lambda>x. m_state (snd x)) (m_agents (fst (UpdateSystem ?sys ?w))) = [Active, Inactive]"
    by simp_all
  have before: "map fst (m_agents ?sys) = [''a'', ''b'']"
    "map (\<lambda>x. m_state (snd x)) (m_agents ?sys) = [Inactive, Inactive]"
    unfolding agents by simp_all
  show ?thesis
    using init goals names before after by blast
qed

text \<open>
  C7 as stated fails for an odd number of agents, because the code compares with the
  integer quotient: with one registered agent, inactive, none of one is active, which is
  fewer than half, yet 0 < 1 div 2 is false and the agent stays \<open>Inactive\<close>.
\<close>

theorem C7_single_agent_counterexample:
  "m_initialized (fst (system_with_agents [''a''])) \<and>
   FindAtom (snd (system_with_agents [''a''])) ''OptimizePerformance'' = Some 5 \<and>
   m_type (heap (snd (system_with_agents [''a''])) 5) = Goal \<and>
   GetAgentNames (fst (system_with_agents [''a''])) = [''a''] \<and>
   map_option m_state (GetAgent (fst (system_with_agents [''a''])) ''a'') = Some Inactive \<and>
   totalAgents (GetStatistics (fst (system_with_agents [''a''])) (snd (system_with_agents [''a'']))) = 1 \<and>
   activeAgents (GetStatistics (fst (system_with_agents [''a''])) (snd (system_with_agents [''a'']))) = 0 \<and>
   map_option m_state
     (GetAgent (fst (UpdateSystem (fst (system_with_agents [''a'']))
                                  (snd (system_with_agents [''a''])))) ''a'') = Some Inactive"
  by code_simp

section \<open>The stages Plan, Act and Reason\<close>

lemma Plan_keeps_agent:
  "Plan agent w = Inr (agent1, w1) \<Longrightarrow> agent1 = agent"
  by (auto simp add: Plan_def split: sum.splits)

lemma Act_keeps_agent:
  "Act agent w = Inr (agent1, w1) \<Longrightarrow> agent1 = agent"
  by (auto simp add: Act_def split: if_splits)

lemma Reason_keeps_agent:
  "Reason agent w = Inr (agent1, w1) \<Longrightarrow> agent1 = agent"
  by (auto simp add: Reason_def split: if_splits sum.splits)

text \<open>
  C3, evaluated on the code. The agent \<open>a\<close> of a system holds the goal \<open>AgentGoal:a\<close> at
  truth 0.5. Its \<^verbatim>\<open>Plan\<close> stage creates the Process \<open>Plan:AgentGoal:a\<close> at truth 0.5 and
  confidence 0.8 and adds it to the outgoing links of the goal, but the incoming links
  of the plan stay empty: \<^verbatim>\<open>Plan\<close> never calls \<^verbatim>\<open>AddIncomingLink\<close>. The \<^verbatim>\<open>Act\<close> stage
  that follows finds the plan above 0.4 and raises its truth to 0.6, and leaves the
  truth of the goal at 0.5, not 0.55.
\<close>

theorem C3_act_does_not_boost_goal:
  "m_goals agent_a = [7] \<and>
   m_type (heap world_a 7) = Goal \<and>
   m_name (heap world_a 7) = ''AgentGoal:a'' \<and>
   m_truthValue (heap world_a 7) = 0.5 \<and>
   \<not> isl after_plan \<and>
   FindAtom (snd (projr after_plan)) ''Plan:AgentGoal:a'' = Some 8 \<and>
   m_type (heap (snd (projr after_plan)) 8) = Process \<and>
   m_truthValue (heap (snd (projr after_plan)) 8) = 0.5 \<and>
   m_confidence (heap (snd (projr after_plan)) 8) = 0.8 \<and>
   m_outgoingLinks (heap (snd (projr after_plan)) 7) = [8] \<and>
   m_incomingLinks (heap (snd (projr after_plan)) 8) = [] \<and>
   \<not> isl after_act \<and>
   m_truthValue (heap (snd (projr after_act)) 8) = 0.6 \<and>
   m_truthValue (heap (snd (projr after_act)) 7) = 0.5 \<and>
   m_truthValue (heap (snd (projr after_act)) 7) \<noteq> 0.55"
  by code_simp

text \<open>
  C8, evaluated on the code. The started agent \<open>a\<close> is \<open>Active\<close>. Its state is still
  \<open>Active\<close> after \<^verbatim>\<open>Plan\<close> and after \<^verbatim>\<open>Act\<close>: neither stage assigns \<open>m_state\<close>, so the
  state is never \<open>Planning\<close> or \<open>Executing\<close>. The sibling stages do assign theirs: after
  \<^verbatim>\<open>Learn\<close> the state is \<open>Learning\<close>, after \<^verbatim>\<open>SelfModify\<close> it is \<open>SelfModifying\<close>, and
  \<^verbatim>\<open>Perceive\<close> overwrites either with \<open>Active\<close>.
\<close>

theorem C8_plan_and_act_set_no_state:
  "m_state agent_a = Active \<and>
   \<not> isl after_plan \<and>
   m_state (fst (projr after_plan)) = Active \<and>
   m_state (fst (projr after_plan)) \<noteq> Planning \<and>
   \<not> isl after_act \<and>
   m_state (fst (projr after_act)) = Active \<and>
   m_state (fst (projr after_act)) \<noteq> Executing \<and>
   m_state (fst (Learn agent_a world_a)) = Learning \<and>
   m_state (fst (SelfModify agent_a world_a)) = SelfModifying \<and>
   m_state (fst (Perceive (fst (Learn agent_a world_a)) (snd (Learn agent_a world_a)))) = Active \<and>
   m_state (fst (Perceive (fst (SelfModify agent_a world_a)) (snd (SelfModify agent_a world_a))))
     = Active"
  by code_simp

text \<open>
  C6, evaluated on the code. The agent has perceived the Concept \<open>X\<close>: its first memory
  is the node \<open>Perceived:X\<close> at truth 0.2, and \<open>X\<close> now holds truth 0.8 and confidence 0.5.
  The prefix \<open>Perceived:\<close> has 10 characters, so \<^verbatim>\<open>substr(9)\<close> leaves \<open>:X\<close>, which is not
  a substring of \<open>X\<close> (while the name without the prefix is). \<^verbatim>\<open>Reason\<close> therefore
  leaves \<open>X\<close> at truth 0.8 and confidence 0.5, not at the mean 0.5 and at 0.55.
\<close>

theorem C6_reason_keeps_the_colon:
  "length ''Perceived:'' = 10 \<and>
   FindAtom (snd reason_example) ''X'' = Some 3 \<and>
   m_type (heap (snd reason_example) 3) = Concept \<and>
   m_truthValue (heap (snd reason_example) 3) = 0.8 \<and>
   m_confidence (heap (snd reason_example) 3) = 0.5 \<and>
   m_memories (fst reason_example) = [5, 6] \<and>
   m_type (heap (snd reason_example) 5) = Memory \<and>
   m_name (heap (snd reason_example) 5) = ''Perceived:X'' \<and>
   m_truthValue (heap (snd reason_example) 5) = 0.2 \<and>
   substr (m_name (heap (snd reason_example) 5)) 9 = Inr '':X'' \<and>
   find_str ''X'' '':X'' = None \<and>
   find_str ''X'' (drop 10 (m_name (heap (snd reason_example) 5))) = Some 0 \<and>
   \<not> isl after_reason \<and>
   m_truthValue (heap (snd (projr after_reason)) 3) = 0.8 \<and>
   m_truthValue (heap (snd (projr after_reason)) 3) \<noteq> (0.8 + 0.2) / 2 \<and>
   m_confidence (heap (snd (projr after_reason)) 3) = 0.5 \<and>
   m_confidence (heap (snd (projr after_reason)) 3) \<noteq> min 1 (0.5 * 1.1)"
  by code_simp

end
